theory Spec2Isabelle
  imports Main
begin

section \<open>The badminton poll bot (badminton.py)\<close>

text \<open>
  A shallow embedding of \<^verbatim>\<open>badminton.py\<close>: the pickle files, the
  \<^verbatim>\<open>PersistentData\<close> and \<^verbatim>\<open>BadmintonBot\<close> classes, the date helper
  \<^verbatim>\<open>get_next_date\<close> and the controller \<^verbatim>\<open>manage_badminton_poll\<close>.
  Exceptions are values: a function that can raise returns \<open>exn + 'a\<close>, and a
  method with effects returns its outcome together with the world it leaves behind.
\<close>

subsection \<open>Exceptions\<close>

datatype exn =
    OverflowError      \<comment> \<open>date or timedelta out of range\<close>
  | IndexError         \<comment> \<open>list index out of range\<close>
  | NameError          \<comment> \<open>unbound global name\<close>
  | AttributeError     \<comment> \<open>method of \<^verbatim>\<open>PersistentData\<close> called on another object\<close>
  | UnpicklingError    \<comment> \<open>\<^verbatim>\<open>pickle.load\<close> on bytes that are no pickle\<close>
  | OSError            \<comment> \<open>\<^verbatim>\<open>open\<close> failing other than by a missing file\<close>
  | SocketTimeout      \<comment> \<open>\<^verbatim>\<open>socket.timeout\<close>\<close>
  | TelegramError      \<comment> \<open>any other failure of a Telegram call\<close>
  | SystemExit int

subsection \<open>Python's \<^verbatim>\<open>datetime.date\<close>, as far as the program uses it\<close>

text \<open>
  A \<^verbatim>\<open>date\<close> is represented by its proleptic Gregorian ordinal
  (\<^verbatim>\<open>date.toordinal()\<close>): 0001-01-01 is 1 and \<^verbatim>\<open>date.max\<close>, 9999-12-31, is
  3652059. Python defines \<^verbatim>\<open>weekday()\<close> as \<^verbatim>\<open>(toordinal() + 6) % 7\<close>
  (Monday is 0, Sunday is 6), \<^verbatim>\<open>timedelta(days=n)\<close> raises OverflowError beyond
  999999999 days, and \<^verbatim>\<open>date + timedelta\<close> raises OverflowError when the sum
  leaves the range of dates.
\<close>

datatype date = Date (toordinal: int)

definition MAXORDINAL :: int where
  "MAXORDINAL = 3652059"

definition valid_date :: "date \<Rightarrow> bool" where
  "valid_date d \<longleftrightarrow> 1 \<le> toordinal d \<and> toordinal d \<le> MAXORDINAL"

definition weekday :: "date \<Rightarrow> int" where
  "weekday d = (toordinal d + 6) mod 7"

datatype timedelta = Timedelta (days: int)

definition timedelta :: "int \<Rightarrow> exn + timedelta" where
  "timedelta n =
     (if - 999999999 \<le> n \<and> n \<le> 999999999 then Inr (Timedelta n) else Inl OverflowError)"

definition date_add :: "date \<Rightarrow> timedelta \<Rightarrow> exn + date" where
  "date_add d td =
     (let ordinal = toordinal d + days td
      in if 0 < ordinal \<and> ordinal \<le> MAXORDINAL then Inr (Date ordinal) else Inl OverflowError)"

text \<open>
  \<^verbatim>\<open>str(date)\<close> is the ISO form YYYY-MM-DD. The year, month and day of an ordinal
  are found as Python's \<^verbatim>\<open>_ord2ymd\<close> finds them: by 400-, 100-, 4- and 1-year
  cycles, then an estimate of the month that is corrected downwards when it overshoots.
\<close>

definition days_before_month :: "int list" where
  "days_before_month = [0, 0, 31, 59, 90, 120, 151, 181, 212, 243, 273, 304, 334]"

definition days_in_month :: "int list" where
  "days_in_month = [0, 31, 28, 31, 30, 31, 30, 31, 31, 30, 31, 30, 31]"

definition ord2ymd :: "int \<Rightarrow> int \<times> int \<times> int" where
  "ord2ymd ordinal =
     (let n0 = ordinal - 1;
          n400 = n0 div 146097; n1 = n0 mod 146097;
          n100 = n1 div 36524; n2 = n1 mod 36524;
          n4 = n2 div 1461; n3 = n2 mod 1461;
          n1y = n3 div 365; n = n3 mod 365;
          year = n400 * 400 + 1 + n100 * 100 + n4 * 4 + n1y
      in if n1y = 4 \<or> n100 = 4 then (year - 1, 12, 31)
         else
           let leapyear = (n1y = 3 \<and> (n4 \<noteq> 24 \<or> n100 = 3));
               month = (n + 50) div 32;
               preceding = days_before_month ! nat month
                             + (if 2 < month \<and> leapyear then 1 else 0)
           in if n < preceding
              then let month' = month - 1;
                       preceding' = preceding - (days_in_month ! nat month'
                                      + (if month' = 2 \<and> leapyear then 1 else 0))
                   in (year, month', n - preceding' + 1)
              else (year, month, n - preceding + 1))"

definition digit :: "int \<Rightarrow> char" where
  "digit k = char_of (48 + k)"

definition digits2 :: "int \<Rightarrow> string" where
  "digits2 k = [digit (k div 10 mod 10), digit (k mod 10)]"

definition digits4 :: "int \<Rightarrow> string" where
  "digits4 k = digits2 (k div 100) @ digits2 k"

definition date_str :: "date \<Rightarrow> string" where
  "date_str d = (case ord2ymd (toordinal d) of
       (y, m, dd) \<Rightarrow> digits4 y @ ''-'' @ digits2 m @ ''-'' @ digits2 dd)"

subsection \<open>The date helper\<close>

definition MONDAY :: int where
  "MONDAY = 7"

definition FRIDAY :: int where
  "FRIDAY = 4"

text \<open>
  \<^verbatim>\<open>get_next_date(weekday, date=None)\<close>. The first argument is the value of
  \<^verbatim>\<open>date.today()\<close>, read only when \<^verbatim>\<open>date\<close> is None.
\<close>

definition get_next_date :: "date \<Rightarrow> int \<Rightarrow> date option \<Rightarrow> exn + date" where
  "get_next_date today wd date =
     (let d = (case date of None \<Rightarrow> today | Some d' \<Rightarrow> d')
      in case timedelta (wd - weekday d) of
           Inl e \<Rightarrow> Inl e
         | Inr delta \<Rightarrow> date_add d delta)"

subsection \<open>Values, pickle files and the persistent record\<close>

record PersistentData =
  poll_message_id :: "int option"
  poll_id :: "string option"
  polling_date :: "date option"

definition PersistentData_init :: "int option \<Rightarrow> string option \<Rightarrow> date option \<Rightarrow> PersistentData" where
  "PersistentData_init message_id pid date =
     \<lparr>poll_message_id = message_id, poll_id = pid, polling_date = date\<rparr>"

definition set_poll_message_id :: "int option \<Rightarrow> PersistentData \<Rightarrow> PersistentData" where
  "set_poll_message_id message_id pd = pd\<lparr>poll_message_id := message_id\<rparr>"

definition set_poll_id :: "string option \<Rightarrow> PersistentData \<Rightarrow> PersistentData" where
  "set_poll_id pid pd = pd\<lparr>poll_id := pid\<rparr>"

definition set_polling_date :: "date option \<Rightarrow> PersistentData \<Rightarrow> PersistentData" where
  "set_polling_date date pd = pd\<lparr>polling_date := date\<rparr>"

text \<open>
  The Python values that reach a pickle file or an update cursor: None, an integer, the
  empty dict that \<^verbatim>\<open>load\<close> returns for a missing file, and a
  \<^verbatim>\<open>PersistentData\<close> object.
\<close>

datatype pyval = PyNone | PyInt int | PyEmptyDict | PyData PersistentData

fun isinstance_dict :: "pyval \<Rightarrow> bool" where
  "isinstance_dict PyEmptyDict = True"
| "isinstance_dict _ = False"

text \<open>
  A file either holds the dump of a value, or bytes that \<^verbatim>\<open>pickle.load\<close>
  rejects, or cannot be opened for reading at all. A name that the map does not know is
  a file that does not exist.
\<close>

datatype stored = Dump pyval | Corrupt | Unreadable

subsection \<open>The Telegram service\<close>

text \<open>
  The service is outside the program: each of its calls either answers, times out
  (\<^verbatim>\<open>socket.timeout\<close>) or fails otherwise. The first argument of each call is
  the token of the \<^verbatim>\<open>telegram.Bot\<close> it goes through.
\<close>

datatype 'a reply = Ok 'a | TimedOut | Failed

record message =
  message_id :: int
  message_poll_id :: string   \<comment> \<open>\<^verbatim>\<open>message.poll.id\<close>\<close>

record user =
  first_name :: string
  last_name :: "string option"

record poll_answer =
  answer_poll_id :: string    \<comment> \<open>\<^verbatim>\<open>poll_answer.poll_id\<close>\<close>
  answer_user :: user         \<comment> \<open>\<^verbatim>\<open>poll_answer.user\<close>\<close>
  option_ids :: "int list"

record update =
  update_id :: int
  poll_answer :: "poll_answer option"

record telegram =
  tg_send_message :: "string \<Rightarrow> string \<Rightarrow> string \<Rightarrow> unit reply"
  tg_send_poll :: "string \<Rightarrow> string \<Rightarrow> string \<Rightarrow> string list \<Rightarrow> message reply"
  tg_stop_poll :: "string \<Rightarrow> string \<Rightarrow> int option \<Rightarrow> unit reply"
  tg_get_updates :: "string \<Rightarrow> pyval option \<Rightarrow> update list reply"

text \<open>What one run reads from outside: the clock and the service.\<close>

record env =
  today :: date
  tg :: telegram

text \<open>The calls issued to the service, in order.\<close>

datatype call =
    SendMessage string string string
  | SendPoll string string string "string list"
  | StopPoll string string "int option"
  | GetUpdates string "pyval option"

subsection \<open>The world a run changes\<close>

record BadmintonBot =
  bot :: string          \<comment> \<open>the token of \<^verbatim>\<open>self.bot\<close>\<close>
  group_id :: string
  data :: pyval

text \<open>
  \<open>heap\<close> holds the \<^verbatim>\<open>BadmintonBot\<close> instances, a reference being an index;
  \<open>bot_global\<close> is the module's global name \<^verbatim>\<open>bot\<close>, None while it is unbound.
\<close>

record world =
  files :: "string \<rightharpoonup> stored"
  heap :: "BadmintonBot list"
  bot_global :: "nat option"
  trace :: "call list"
  stdout :: "string list"

type_synonym 'a result = "(exn + 'a) \<times> world"

definition set_data :: "nat \<Rightarrow> pyval \<Rightarrow> world \<Rightarrow> world" where
  "set_data self v w = w\<lparr>heap := (heap w)[self := (heap w ! self)\<lparr>data := v\<rparr>]\<rparr>"

definition called :: "call \<Rightarrow> world \<Rightarrow> world" where
  "called c w = w\<lparr>trace := trace w @ [c]\<rparr>"

definition print :: "string \<Rightarrow> world \<Rightarrow> world" where
  "print line w = w\<lparr>stdout := stdout w @ [line]\<rparr>"

text \<open>Python's list indexing: a negative index counts from the end.\<close>

definition py_index :: "'a list \<Rightarrow> int \<Rightarrow> exn + 'a" where
  "py_index xs i =
     (if 0 \<le> i \<and> i < int (length xs) then Inr (xs ! nat i)
      else if i < 0 \<and> - int (length xs) \<le> i then Inr (xs ! nat (int (length xs) + i))
      else Inl IndexError)"

subsection \<open>The state store\<close>

definition store :: "pyval \<Rightarrow> string \<Rightarrow> world \<Rightarrow> world" where
  "store v filename w = w\<lparr>files := (files w)(filename \<mapsto> Dump v)\<rparr>"

definition load :: "string \<Rightarrow> world \<Rightarrow> exn + pyval" where
  "load filename w =
     (case files w filename of
        None \<Rightarrow> Inr PyEmptyDict
      | Some (Dump v) \<Rightarrow> Inr v
      | Some Corrupt \<Rightarrow> Inl UnpicklingError
      | Some Unreadable \<Rightarrow> Inl OSError)"

subsection \<open>The methods of \<^verbatim>\<open>BadmintonBot\<close>\<close>

definition BadmintonBot_init :: "string \<Rightarrow> string \<Rightarrow> world \<Rightarrow> nat result" where
  "BadmintonBot_init tok gid w =
     (case load ''poll.data'' w of
        Inl e \<Rightarrow> (Inl e, w)
      | Inr loaded \<Rightarrow>
          let fresh = PyData (PersistentData_init None None None);
              d = (if isinstance_dict loaded then fresh else loaded);
              w1 = (if isinstance_dict loaded then store fresh ''poll.data'' w else w);
              self = length (heap w1)
          in (Inr self, w1\<lparr>heap := heap w1 @ [\<lparr>bot = tok, group_id = gid, data = d\<rparr>]\<rparr>))"

definition send_message :: "env \<Rightarrow> BadmintonBot \<Rightarrow> string \<Rightarrow> world \<Rightarrow> unit result" where
  "send_message env self text w =
     (let w1 = called (SendMessage (bot self) (group_id self) text) w
      in case tg_send_message (tg env) (bot self) (group_id self) text of
           Ok _ \<Rightarrow> (Inr (), w1)
         | TimedOut \<Rightarrow> (Inr (), w1)
         | Failed \<Rightarrow> (Inl TelegramError, w1))"

definition default_options :: "string list" where
  "default_options = [''Ja'', ''Nein'']"

definition send_poll ::
  "env \<Rightarrow> BadmintonBot \<Rightarrow> string \<Rightarrow> string list option \<Rightarrow> world
     \<Rightarrow> (int option \<times> string option) result" where
  "send_poll env self question options w =
     (let opts = (case options of None \<Rightarrow> default_options | Some os \<Rightarrow> os);
          w1 = called (SendPoll (bot self) (group_id self) question opts) w
      in case tg_send_poll (tg env) (bot self) (group_id self) question opts of
           Ok msg \<Rightarrow> (Inr (Some (message_id msg), Some (message_poll_id msg)), w1)
         | TimedOut \<Rightarrow> (Inr (None, None), w1)
         | Failed \<Rightarrow> (Inl TelegramError, w1))"

definition get_updates :: "env \<Rightarrow> BadmintonBot \<Rightarrow> pyval \<Rightarrow> world \<Rightarrow> update list result" where
  "get_updates env self uid w =
     (let arg = (if uid \<noteq> PyNone then Some uid else None);
          w1 = called (GetUpdates (bot self) arg) w
      in case tg_get_updates (tg env) (bot self) arg of
           Ok updates \<Rightarrow> (Inr updates, w1)
         | TimedOut \<Rightarrow> (Inr [], w1)
         | Failed \<Rightarrow> (Inl TelegramError, w1))"

definition str_opt :: "string option \<Rightarrow> string" where
  "str_opt s = (case s of None \<Rightarrow> ''None'' | Some t \<Rightarrow> t)"

definition vote_line :: "poll_answer \<Rightarrow> string \<Rightarrow> string" where
  "vote_line pa choice =
     ''User '' @ first_name (answer_user pa) @ '' '' @ str_opt (last_name (answer_user pa))
       @ '' voted '' @ choice"

text \<open>The loop of \<^verbatim>\<open>evaluate_poll\<close> over the updates.\<close>

fun scan_updates :: "string option \<Rightarrow> string list \<Rightarrow> update list \<Rightarrow> world \<Rightarrow> unit result" where
  "scan_updates pid opts [] w = (Inr (), w)"
| "scan_updates pid opts (u # us) w =
     (case poll_answer u of
        None \<Rightarrow> scan_updates pid opts us w
      | Some pa \<Rightarrow>
          if pid = Some (answer_poll_id pa) then
            (case py_index (option_ids pa) 0 of
               Inl e \<Rightarrow> (Inl e, w)
             | Inr i \<Rightarrow>
                 (case py_index opts i of
                    Inl e \<Rightarrow> (Inl e, w)
                  | Inr choice \<Rightarrow> scan_updates pid opts us (print (vote_line pa choice) w)))
          else scan_updates pid opts us w)"

definition evaluate_poll ::
  "env \<Rightarrow> BadmintonBot \<Rightarrow> int option \<Rightarrow> string option \<Rightarrow> string list option \<Rightarrow> world
     \<Rightarrow> unit result" where
  "evaluate_poll env self mid pid options w =
     (let w1 = called (StopPoll (bot self) (group_id self) mid) w
      in case tg_stop_poll (tg env) (bot self) (group_id self) mid of
           TimedOut \<Rightarrow> (Inl SocketTimeout, w1)
         | Failed \<Rightarrow> (Inl TelegramError, w1)
         | Ok _ \<Rightarrow>
             (case get_updates env self (PyInt (- 100)) w1 of
                (Inl e, w2) \<Rightarrow> (Inl e, w2)
              | (Inr updates, w2) \<Rightarrow>
                  let opts = (case options of None \<Rightarrow> default_options | Some os \<Rightarrow> os)
                  in scan_updates pid opts updates w2))"

definition get_latest_updates :: "env \<Rightarrow> BadmintonBot \<Rightarrow> world \<Rightarrow> unit result" where
  "get_latest_updates env self w =
     (case load ''update.id'' w of
        Inl e \<Rightarrow> (Inl e, w)
      | Inr uid \<Rightarrow>
          (case get_updates env self uid w of
             (Inl e, w1) \<Rightarrow> (Inl e, w1)
           | (Inr updates, w1) \<Rightarrow>
               (case py_index updates (- 1) of
                  Inl e \<Rightarrow> (Inl e, w1)
                | Inr u \<Rightarrow> (Inr (), store (PyInt (update_id u)) ''update.id'' w1))))"

text \<open>
  \<^verbatim>\<open>manage_badminton_poll\<close>, called on the instance at reference \<open>self\<close>. The
  create branch sends the poll through the global name \<^verbatim>\<open>bot\<close>, as the source
  does. The getters of \<^verbatim>\<open>PersistentData\<close> exist on no other value.
\<close>

definition manage_badminton_poll :: "env \<Rightarrow> nat \<Rightarrow> world \<Rightarrow> unit result" where
  "manage_badminton_poll env self w =
     (case data (heap w ! self) of
        PyData pd \<Rightarrow>
          (case polling_date pd of
             None \<Rightarrow>
               (case get_next_date (today env) MONDAY None of
                  Inl e \<Rightarrow> (Inl e, w)
                | Inr next_monday \<Rightarrow>
                    (case bot_global w of
                       None \<Rightarrow> (Inl NameError, w)
                     | Some g \<Rightarrow>
                         (case send_poll env (heap w ! g) (''Abfrage '' @ date_str next_monday) None w of
                            (Inl e, w1) \<Rightarrow> (Inl e, w1)
                          | (Inr (mid, pid), w1) \<Rightarrow>
                              let pd' = set_polling_date (Some next_monday)
                                          (set_poll_id pid (set_poll_message_id mid pd));
                                  w2 = set_data self (PyData pd') w1
                              in (Inr (), store (PyData pd') ''poll.data'' w2))))
           | Some date \<Rightarrow>
               (case get_next_date (today env) FRIDAY (Some date) of
                  Inl e \<Rightarrow> (Inl e, w)
                | Inr trigger \<Rightarrow>
                    if today env = trigger then
                      (case evaluate_poll env (heap w ! self) (poll_message_id pd) (poll_id pd) None w of
                         (Inl e, w1) \<Rightarrow> (Inl e, w1)
                       | (Inr _, w1) \<Rightarrow>
                           let fresh = PyData (PersistentData_init None None None);
                               w2 = set_data self fresh w1
                           in (Inr (), store fresh ''poll.data'' w2))
                    else (Inr (), store (PyData pd) ''poll.data'' w)))
      | _ \<Rightarrow> (Inl AttributeError, w))"

text \<open>The script's entry point, given the two environment variables.\<close>

definition main :: "env \<Rightarrow> string option \<Rightarrow> string option \<Rightarrow> world \<Rightarrow> unit result" where
  "main env BOT_TOKEN GROUP_ID w =
     (case (BOT_TOKEN, GROUP_ID) of
        (Some tok, Some gid) \<Rightarrow>
          (case BadmintonBot_init tok gid w of
             (Inl e, w1) \<Rightarrow> (Inl e, w1)
           | (Inr self, w1) \<Rightarrow> manage_badminton_poll env self (w1\<lparr>bot_global := Some self\<rparr>))
      | _ \<Rightarrow>
          (Inl (SystemExit (- 1)),
           print ''Environment variables 'BOT_TOKEN' and 'GROUP_ID' must be set'' w))"

subsection \<open>Invariants of the persistent record and reachable worlds\<close>

text \<open>The three fields are None together or set together.\<close>

definition all_or_none :: "PersistentData \<Rightarrow> bool" where
  "all_or_none pd \<longleftrightarrow>
     (poll_message_id pd = None \<and> poll_id pd = None \<and> polling_date pd = None)
     \<or> (poll_message_id pd \<noteq> None \<and> poll_id pd \<noteq> None \<and> polling_date pd \<noteq> None)"

text \<open>
  The two identifiers are None together or set together, and both are None while no
  polling date is set.
\<close>

definition ids_together :: "PersistentData \<Rightarrow> bool" where
  "ids_together pd \<longleftrightarrow>
     ((poll_message_id pd = None) = (poll_id pd = None))
     \<and> (polling_date pd = None \<longrightarrow> poll_message_id pd = None \<and> poll_id pd = None)"

definition holds_record :: "(PersistentData \<Rightarrow> bool) \<Rightarrow> pyval \<Rightarrow> bool" where
  "holds_record P v = (case v of PyData pd \<Rightarrow> P pd | _ \<Rightarrow> False)"

text \<open>
  A world is in order for a property of records when every instance holds a record with
  the property, the file \<^verbatim>\<open>poll.data\<close> is missing or the dump of such a record, and
  the global name, when bound, refers to an instance.
\<close>

definition world_ok :: "(PersistentData \<Rightarrow> bool) \<Rightarrow> world \<Rightarrow> bool" where
  "world_ok P w \<longleftrightarrow>
     list_all (\<lambda>b. holds_record P (data b)) (heap w)
     \<and> (case files w ''poll.data'' of
          None \<Rightarrow> True
        | Some (Dump v) \<Rightarrow> holds_record P v
        | Some _ \<Rightarrow> False)
     \<and> (case bot_global w of None \<Rightarrow> True | Some g \<Rightarrow> g < length (heap w))"

text \<open>
  The worlds that the program reaches from a first run, where no \<^verbatim>\<open>poll.data\<close>
  exists yet: by constructing instances, binding the global name to one of them, calling
  the methods on any clock and any behaviour of the service, and by ending the process,
  which keeps the files only.
\<close>

inductive reachable :: "world \<Rightarrow> bool" where
  first_run: "fs ''poll.data'' = None \<Longrightarrow>
     reachable \<lparr>files = fs, heap = [], bot_global = None, trace = [], stdout = []\<rparr>"
| construct: "reachable w \<Longrightarrow> BadmintonBot_init tok gid w = (r, w') \<Longrightarrow> reachable w'"
| bind_global: "reachable w \<Longrightarrow> self < length (heap w) \<Longrightarrow> reachable (w\<lparr>bot_global := Some self\<rparr>)"
| manage: "reachable w \<Longrightarrow> self < length (heap w) \<Longrightarrow>
     manage_badminton_poll env self w = (r, w') \<Longrightarrow> reachable w'"
| latest_updates: "reachable w \<Longrightarrow> self < length (heap w) \<Longrightarrow>
     get_latest_updates env (heap w ! self) w = (r, w') \<Longrightarrow> reachable w'"
| message: "reachable w \<Longrightarrow> self < length (heap w) \<Longrightarrow>
     send_message env (heap w ! self) text w = (r, w') \<Longrightarrow> reachable w'"
| process_end: "reachable w \<Longrightarrow> reachable (w\<lparr>heap := [], bot_global := None\<rparr>)"

subsection \<open>Example runs\<close>

text \<open>
  A service that answers every call: polls get message 42 and poll id p1, and there are
  no updates.
\<close>

definition answering :: telegram where
  "answering =
     \<lparr>tg_send_message = (\<lambda>_ _ _. Ok ()),
      tg_send_poll = (\<lambda>_ _ _ _. Ok \<lparr>message_id = 42, message_poll_id = ''p1''\<rparr>),
      tg_stop_poll = (\<lambda>_ _ _. Ok ()),
      tg_get_updates = (\<lambda>_ _. Ok [])\<rparr>"

text \<open>A world of one instance (token T, group G) holding \<open>pd\<close>, which is also on file.\<close>

definition one_bot :: "PersistentData \<Rightarrow> nat option \<Rightarrow> world" where
  "one_bot pd g =
     \<lparr>files = [''poll.data'' \<mapsto> Dump (PyData pd)],
      heap = [\<lparr>bot = ''T'', group_id = ''G'', data = PyData pd\<rparr>],
      bot_global = g, trace = [], stdout = []\<rparr>"

definition no_files :: world where
  "no_files = \<lparr>files = Map.empty, heap = [], bot_global = None, trace = [], stdout = []\<rparr>"

text \<open>
  Dates of the examples: 2024-01-01 is ordinal 738886 and a Monday, so 738888 is
  Wednesday 2024-01-03, 738890 Friday 2024-01-05, 738891 Saturday 2024-01-06, 738893
  Monday 2024-01-08 and 738897 Friday 2024-01-12.
\<close>

definition empty_record :: PersistentData where
  "empty_record = PersistentData_init None None None"

definition pending_record :: PersistentData where
  "pending_record = PersistentData_init (Some 42) (Some ''p1'') (Some (Date 738893))"

section \<open>Properties\<close>

subsection \<open>Dates\<close>

lemma weekday_range: "0 \<le> weekday d \<and> weekday d \<le> 6"
  by (simp add: weekday_def)

lemma weekday_shift: "weekday (Date (toordinal d + (w - weekday d))) = w mod 7"
  by (simp add: weekday_def) presburger

lemma monday_of_week_valid: "valid_date d \<Longrightarrow> 1 \<le> toordinal d - weekday d"
  by (simp add: valid_date_def weekday_def) presburger

lemma get_next_date_value:
  assumes "valid_date d" "0 \<le> w" "w \<le> 7" "toordinal d + (w - weekday d) \<le> MAXORDINAL"
  shows "get_next_date now w (Some d) = Inr (Date (toordinal d + (w - weekday d)))"
  using assms monday_of_week_valid [of d] weekday_range [of d]
  by (simp add: get_next_date_def timedelta_def date_add_def)

lemma get_next_date_today: "get_next_date now w None = get_next_date now w (Some now)"
  by (simp add: get_next_date_def)

lemma friday_in_range: "valid_date d \<Longrightarrow> toordinal d + (FRIDAY - weekday d) \<le> MAXORDINAL"
  by (simp add: valid_date_def weekday_def FRIDAY_def MAXORDINAL_def) presburger

text \<open>
  C1, as stated, fails. For FRIDAY on Saturday 2024-01-06 the result is the day before,
  Friday 2024-01-05, so it is not on or after the given date. For MONDAY on Monday
  2024-01-01 the result is Monday 2024-01-08: its weekday is 0 and not the constant 7,
  and it lies seven days after the given date, not fewer.
\<close>

theorem get_next_date_counterexample:
  "get_next_date (Date 738891) FRIDAY (Some (Date 738891)) = Inr (Date 738890)
   \<and> \<not> toordinal (Date 738891) \<le> toordinal (Date 738890)
   \<and> get_next_date (Date 738886) MONDAY (Some (Date 738886)) = Inr (Date 738893)
   \<and> weekday (Date 738886) = 0
   \<and> weekday (Date 738893) \<noteq> MONDAY
   \<and> \<not> toordinal (Date 738893) - toordinal (Date 738886) < 7"
  by (simp add: get_next_date_def timedelta_def date_add_def weekday_def FRIDAY_def MONDAY_def
      MAXORDINAL_def)

text \<open>
  C1, amended. For a weekday \<open>w\<close> from 0 to 6 and a date \<open>d\<close> whose weekday is at
  most \<open>w\<close>, the result \<open>r\<close> of \<open>get_next_date w d\<close> has weekday \<open>w\<close>, is on or after
  \<open>d\<close> and less than seven days after it, and is \<open>d\<close> itself when \<open>d\<close> falls on \<open>w\<close>
  (as long as \<open>r\<close> is not beyond the last date). This holds for FRIDAY on every date from
  Monday to Friday. For MONDAY the result is the Monday strictly after \<open>d\<close>, one to seven
  days later, and seven days later when \<open>d\<close> is a Monday.
\<close>

theorem get_next_date_same_week:
  assumes "valid_date d"
  shows "(0 \<le> w \<and> w \<le> 6 \<and> weekday d \<le> w \<and> toordinal d + (w - weekday d) \<le> MAXORDINAL \<longrightarrow>
            (\<exists>r. get_next_date now w (Some d) = Inr r \<and> weekday r = w
                 \<and> toordinal d \<le> toordinal r \<and> toordinal r - toordinal d < 7
                 \<and> (weekday d = w \<longrightarrow> r = d)))
       \<and> (weekday d \<le> FRIDAY \<longrightarrow>
            (\<exists>r. get_next_date now FRIDAY (Some d) = Inr r \<and> weekday r = FRIDAY
                 \<and> toordinal d \<le> toordinal r \<and> toordinal r - toordinal d < 7
                 \<and> (weekday d = FRIDAY \<longrightarrow> r = d)))
       \<and> (toordinal d + (MONDAY - weekday d) \<le> MAXORDINAL \<longrightarrow>
            (\<exists>r. get_next_date now MONDAY (Some d) = Inr r \<and> weekday r = 0
                 \<and> toordinal d < toordinal r \<and> toordinal r - toordinal d \<le> 7
                 \<and> (weekday d = 0 \<longrightarrow> toordinal r = toordinal d + 7)))"
proof (intro conjI impI)
  assume h: "0 \<le> w \<and> w \<le> 6 \<and> weekday d \<le> w \<and> toordinal d + (w - weekday d) \<le> MAXORDINAL"
  then have "get_next_date now w (Some d) = Inr (Date (toordinal d + (w - weekday d)))"
    using assms by (simp add: get_next_date_value)
  moreover have "weekday (Date (toordinal d + (w - weekday d))) = w"
    using h by (simp add: weekday_shift)
  ultimately show "\<exists>r. get_next_date now w (Some d) = Inr r \<and> weekday r = w
                 \<and> toordinal d \<le> toordinal r \<and> toordinal r - toordinal d < 7
                 \<and> (weekday d = w \<longrightarrow> r = d)"
    using h weekday_range [of d] by (cases d) auto
next
  assume h: "weekday d \<le> FRIDAY"
  have "get_next_date now FRIDAY (Some d) = Inr (Date (toordinal d + (FRIDAY - weekday d)))"
    using assms friday_in_range [OF assms] by (intro get_next_date_value) (simp_all add: FRIDAY_def)
  moreover have "weekday (Date (toordinal d + (FRIDAY - weekday d))) = FRIDAY"
    by (simp add: weekday_shift) (simp add: FRIDAY_def)
  ultimately show "\<exists>r. get_next_date now FRIDAY (Some d) = Inr r \<and> weekday r = FRIDAY
                 \<and> toordinal d \<le> toordinal r \<and> toordinal r - toordinal d < 7
                 \<and> (weekday d = FRIDAY \<longrightarrow> r = d)"
    using h weekday_range [of d] by (cases d) (auto simp: FRIDAY_def)
next
  assume h: "toordinal d + (MONDAY - weekday d) \<le> MAXORDINAL"
  have "get_next_date now MONDAY (Some d) = Inr (Date (toordinal d + (MONDAY - weekday d)))"
    using assms h by (intro get_next_date_value) (simp_all add: MONDAY_def)
  moreover have "weekday (Date (toordinal d + (MONDAY - weekday d))) = 0"
    by (simp add: weekday_shift) (simp add: MONDAY_def)
  ultimately show "\<exists>r. get_next_date now MONDAY (Some d) = Inr r \<and> weekday r = 0
                 \<and> toordinal d < toordinal r \<and> toordinal r - toordinal d \<le> 7
                 \<and> (weekday d = 0 \<longrightarrow> toordinal r = toordinal d + 7)"
    using weekday_range [of d] by (auto simp: MONDAY_def)
qed

theorem get_next_date_same_week_witness:
  "valid_date (Date 738888) \<and> weekday (Date 738888) = 2
   \<and> toordinal (Date 738888) + (MONDAY - weekday (Date 738888)) \<le> MAXORDINAL
   \<and> (\<exists>r. get_next_date (Date 738888) 4 (Some (Date 738888)) = Inr r \<and> weekday r = 4
          \<and> toordinal (Date 738888) \<le> toordinal r \<and> toordinal r - toordinal (Date 738888) < 7)
   \<and> (\<exists>r. get_next_date (Date 738888) FRIDAY (Some (Date 738888)) = Inr r \<and> weekday r = FRIDAY
          \<and> toordinal (Date 738888) \<le> toordinal r \<and> toordinal r - toordinal (Date 738888) < 7)
   \<and> (\<exists>r. get_next_date (Date 738888) MONDAY (Some (Date 738888)) = Inr r \<and> weekday r = 0
          \<and> toordinal (Date 738888) < toordinal r \<and> toordinal r - toordinal (Date 738888) \<le> 7)"
proof -
  have v: "valid_date (Date 738888)"
    by (simp add: valid_date_def MAXORDINAL_def)
  have wd: "weekday (Date 738888) = 2"
    by (simp add: weekday_def)
  show ?thesis
    using get_next_date_same_week [OF v, of 4 "Date 738888"] v wd
    by (simp add: MAXORDINAL_def FRIDAY_def MONDAY_def)
qed

end
